theory Spec2Isabelle
  imports Main "HOL-Library.Sublist" "HOL-Library.List_Lexorder" "HOL-Library.Char_ord"
begin

section \<open>Strings\<close>

text \<open>
  Python strings are modelled as \<open>string\<close>, a list of characters; a character stands for
  a code point below 256.  A backslash cannot be written inside a string literal, so it, the
  newline and the carriage return get names.
\<close>

abbreviation BSL :: char where "BSL \<equiv> CHR 0x5C"

abbreviation NL :: char where "NL \<equiv> CHR 0x0A"

abbreviation CR :: char where "CR \<equiv> CHR 0x0D"

text \<open>\<open>sep.join(parts)\<close>\<close>

fun join :: "string \<Rightarrow> string list \<Rightarrow> string" where
  "join sep [] = []"
| "join sep [x] = x"
| "join sep (x # y # ys) = x @ sep @ join sep (y # ys)"

text \<open>
  \<open>s.replace(old, new)\<close> and \<open>s.count(sub)\<close>: occurrences are found from left to
  right and do not overlap.  For an empty \<open>old\<close> Python inserts \<open>new\<close> before every
  character and at the end; the server never gets there, but the model keeps the case.
\<close>

function py_replace :: "string \<Rightarrow> string \<Rightarrow> string \<Rightarrow> string" where
  "py_replace [] old new = (if old = [] then new else [])"
| "py_replace (c # cs) old new =
     (if old = [] then new @ c # py_replace cs old new
      else if prefix old (c # cs) then new @ py_replace (drop (length old) (c # cs)) old new
      else c # py_replace cs old new)"
  by pat_completeness auto

termination
  by (relation "measure (\<lambda>(s, old, new). length s)") auto

function py_count :: "string \<Rightarrow> string \<Rightarrow> nat" where
  "py_count [] sub = (if sub = [] then 1 else 0)"
| "py_count (c # cs) sub =
     (if sub = [] then Suc (py_count cs sub)
      else if prefix sub (c # cs) then Suc (py_count (drop (length sub) (c # cs)) sub)
      else py_count cs sub)"
  by pat_completeness auto

termination
  by (relation "measure (\<lambda>(s, sub). length s)") auto

text \<open>
  \<open>s.splitlines()\<close>: a line ends at a line feed, a carriage return, a carriage return
  followed by a line feed, or one of the other line boundaries of Python; the line ends are
  dropped, and a text that ends in a line end has no empty last line.
\<close>

definition is_line_boundary :: "char \<Rightarrow> bool" where
  "is_line_boundary c =
     (c = NL \<or> c = CR \<or> c = CHR 0x0B \<or> c = CHR 0x0C \<or> c = CHR 0x1C \<or> c = CHR 0x1D
      \<or> c = CHR 0x1E \<or> c = CHR 0x85)"

fun splitlines_from :: "string \<Rightarrow> string \<Rightarrow> string list" where
  "splitlines_from cur [] = (if cur = [] then [] else [cur])"
| "splitlines_from cur (c # cs) =
     (if c = CR then
        (case cs of
           [] \<Rightarrow> cur # splitlines_from [] cs
         | d # ds \<Rightarrow> if d = NL then cur # splitlines_from [] ds else cur # splitlines_from [] cs)
      else if is_line_boundary c then cur # splitlines_from [] cs
      else splitlines_from (cur @ [c]) cs)"

definition splitlines :: "string \<Rightarrow> string list" where
  "splitlines s = splitlines_from [] s"

text \<open>\<open>xs.insert(i, x)\<close> for \<open>0 \<le> i\<close>; an index beyond the end appends.\<close>

definition list_insert :: "nat \<Rightarrow> 'a \<Rightarrow> 'a list \<Rightarrow> 'a list" where
  "list_insert i x xs = take i xs @ x # drop i xs"

text \<open>
  The pieces of \<open>s\<close> between the successive occurrences of \<open>sep\<close>, found as
  \<open>replace\<close> and \<open>count\<close> find them (\<open>s.split(sep)\<close> for a non-empty \<open>sep\<close>).
  It is used to say what a replacement does, not by the server.
\<close>

function split_on :: "string \<Rightarrow> string \<Rightarrow> string list" where
  "split_on [] sep = [[]]"
| "split_on (c # cs) sep =
     (if sep \<noteq> [] \<and> prefix sep (c # cs) then [] # split_on (drop (length sep) (c # cs)) sep
      else (case split_on cs sep of [] \<Rightarrow> [[c]] | p # ps \<Rightarrow> (c # p) # ps))"
  by pat_completeness auto

termination
  by (relation "measure (\<lambda>(s, sep). length s)") auto

section \<open>The template builder (\<open>_create_latex_template\<close>)\<close>

definition default_packages :: "string list" where
  "default_packages = [''inputenc'', ''fontenc'', ''babel'']"

text \<open>The body of the loop over \<open>default_packages + packages\<close>: the line one package adds.\<close>

definition package_line :: "string \<Rightarrow> string" where
  "package_line package =
     (if package = ''inputenc'' then BSL # ''usepackage[utf8]{inputenc}''
      else if package = ''fontenc'' then BSL # ''usepackage[T1]{fontenc}''
      else if package = ''babel'' then BSL # ''usepackage[english]{babel}''
      else BSL # ''usepackage{'' @ package @ ''}'')"

text \<open>The list \<open>template_parts\<close> as it stands before the final join.\<close>

definition template_parts ::
  "string \<Rightarrow> string \<Rightarrow> string \<Rightarrow> string \<Rightarrow> string \<Rightarrow> string list \<Rightarrow> string \<Rightarrow> string list" where
  "template_parts document_type title author date content packages geometry =
     [BSL # ''documentclass{'' @ document_type @ ''}'']
     @ (if geometry \<noteq> [] then [BSL # ''usepackage['' @ geometry @ '']{geometry}''] else [])
     @ map package_line (default_packages @ packages)
     @ (if title \<noteq> [] then [BSL # ''title{'' @ title @ ''}''] else [])
     @ (if author \<noteq> [] then [BSL # ''author{'' @ author @ ''}''] else [])
     @ (if date \<noteq> [] then [BSL # ''date{'' @ date @ ''}''] else [])
     @ [BSL # ''begin{document}'']
     @ (if title \<noteq> [] then [BSL # ''maketitle''] else [])
     @ [if content \<noteq> [] then content else ''% Your content here'']
     @ [BSL # ''end{document}'']"

definition create_latex_template ::
  "string \<Rightarrow> string \<Rightarrow> string \<Rightarrow> string \<Rightarrow> string \<Rightarrow> string list \<Rightarrow> string \<Rightarrow> string" where
  "create_latex_template document_type title author date content packages geometry =
     join [NL, NL] (template_parts document_type title author date content packages geometry)"

section \<open>The text editor (the operations of \<open>_edit_latex_file\<close>)\<close>

text \<open>
  The three early returns of the edit, as values.  \<open>truthy\<close> is the test
  \<open>if search_text\<close>: an absent and an empty search text are both false.
  \<open>valid_line\<close> is the test
  \<open>line_number is not None and 1 <= line_number <= len(lines)\<close>.
\<close>

datatype edit_error = SearchTextRequired | SearchOrLineRequired | OperationUnknown string

definition truthy :: "string option \<Rightarrow> string option" where
  "truthy search_text = (case search_text of None \<Rightarrow> None | Some s \<Rightarrow> if s = [] then None else Some s)"

definition valid_line :: "int option \<Rightarrow> string list \<Rightarrow> nat option" where
  "valid_line line_number lines =
     (case line_number of
        None \<Rightarrow> None
      | Some n \<Rightarrow> if 1 \<le> n \<and> n \<le> int (length lines) then Some (nat n) else None)"

text \<open>
  Lines 357 to 389 of the source: from the content read and the request, the content to
  write, or the error returned before any write.
\<close>

definition edit_content ::
  "string \<Rightarrow> string \<Rightarrow> string \<Rightarrow> string option \<Rightarrow> int option \<Rightarrow> edit_error + string" where
  "edit_content content operation new_text search_text line_number =
     (let lines = splitlines content in
      if operation = ''replace'' then
        (case truthy search_text of
           None \<Rightarrow> Inl SearchTextRequired
         | Some s \<Rightarrow> Inr (py_replace content s new_text))
      else if operation = ''insert_before'' then
        (case truthy search_text of
           Some s \<Rightarrow> Inr (py_replace content s (new_text @ [NL] @ s))
         | None \<Rightarrow>
             (case valid_line line_number lines of
                Some n \<Rightarrow> Inr (join [NL] (list_insert (n - 1) new_text lines))
              | None \<Rightarrow> Inl SearchOrLineRequired))
      else if operation = ''insert_after'' then
        (case truthy search_text of
           Some s \<Rightarrow> Inr (py_replace content s (s @ [NL] @ new_text))
         | None \<Rightarrow>
             (case valid_line line_number lines of
                Some n \<Rightarrow> Inr (join [NL] (list_insert n new_text lines))
              | None \<Rightarrow> Inl SearchOrLineRequired))
      else if operation = ''append'' then Inr (content @ [NL] @ new_text)
      else if operation = ''prepend'' then Inr (new_text @ [NL] @ content)
      else Inl (OperationUnknown operation))"

definition edit_error_text :: "edit_error \<Rightarrow> string" where
  "edit_error_text e =
     (case e of
        SearchTextRequired \<Rightarrow> ''search_text is required for replace operation''
      | SearchOrLineRequired \<Rightarrow> ''search_text or valid line_number is required''
      | OperationUnknown operation \<Rightarrow> ''Unknown operation: '' @ operation)"

section \<open>Regular expressions of the validator and the structure analyzer\<close>

text \<open>
  Every pattern of the source is a literal command followed by \<open>\{([^}]+)\}\<close>, two of them
  with the optional group \<open>(?:\[[^\]]*\])?\<close> in between.  \<open>Pattern lit opt\<close> is the
  pattern with literal \<open>lit\<close>, with the optional group when \<open>opt\<close> holds.
  \<open>match_braced\<close> matches \<open>\{([^}]+)\}\<close> at the start of a text and returns the group and
  the text after the match; \<open>match_bracket\<close> matches \<open>\[[^\]]*\]\<close> there.  Both classes
  are greedy and exclude one character only, so each has at most one way to match.
  \<open>match_at\<close> tries the optional group first and falls back to the match without it, as
  the backtracking of \<open>re\<close> does.
\<close>

datatype pattern = Pattern string bool

definition match_braced :: "string \<Rightarrow> (string \<times> string) option" where
  "match_braced t =
     (case t of
        [] \<Rightarrow> None
      | c # cs \<Rightarrow>
          if c \<noteq> CHR ''{'' then None
          else
            (let name = takeWhile (\<lambda>x. x \<noteq> CHR ''}'') cs;
                 rest = dropWhile (\<lambda>x. x \<noteq> CHR ''}'') cs
             in if name = [] \<or> rest = [] then None else Some (name, tl rest)))"

definition match_bracket :: "string \<Rightarrow> string option" where
  "match_bracket t =
     (case t of
        [] \<Rightarrow> None
      | c # cs \<Rightarrow>
          if c \<noteq> CHR ''['' then None
          else
            (let rest = dropWhile (\<lambda>x. x \<noteq> CHR '']'') cs
             in if rest = [] then None else Some (tl rest)))"

definition match_at :: "pattern \<Rightarrow> string \<Rightarrow> (string \<times> string) option" where
  "match_at p t =
     (case p of
        Pattern lit opt \<Rightarrow>
          if \<not> prefix lit t then None
          else
            (let r = drop (length lit) t
             in if opt then
                  (case match_bracket r of
                     None \<Rightarrow> match_braced r
                   | Some r' \<Rightarrow>
                       (case match_braced r' of None \<Rightarrow> match_braced r | Some m \<Rightarrow> Some m))
                else match_braced r))"

text \<open>A match consumes at least one character: the scan below terminates.\<close>

lemma match_braced_shorter: "match_braced t = Some (g, rest) \<Longrightarrow> length rest < length t"
proof -
  assume a: "match_braced t = Some (g, rest)"
  then obtain cs where t: "t = CHR ''{'' # cs"
    and r: "dropWhile (\<lambda>x. x \<noteq> CHR ''}'') cs \<noteq> []" "rest = tl (dropWhile (\<lambda>x. x \<noteq> CHR ''}'') cs)"
    by (auto simp: match_braced_def Let_def split: list.splits if_splits)
  have "length (dropWhile (\<lambda>x. x \<noteq> CHR ''}'') cs) \<le> length cs" by (rule length_dropWhile_le)
  with r t show ?thesis by (cases "dropWhile (\<lambda>x. x \<noteq> CHR ''}'') cs") auto
qed

lemma match_bracket_shorter: "match_bracket t = Some rest \<Longrightarrow> length rest < length t"
proof -
  assume a: "match_bracket t = Some rest"
  then obtain cs where t: "t = CHR ''['' # cs"
    and r: "dropWhile (\<lambda>x. x \<noteq> CHR '']'') cs \<noteq> []" "rest = tl (dropWhile (\<lambda>x. x \<noteq> CHR '']'') cs)"
    by (auto simp: match_bracket_def Let_def split: list.splits if_splits)
  have "length (dropWhile (\<lambda>x. x \<noteq> CHR '']'') cs) \<le> length cs" by (rule length_dropWhile_le)
  with r t show ?thesis by (cases "dropWhile (\<lambda>x. x \<noteq> CHR '']'') cs") auto
qed

lemma match_at_shorter:
  assumes "match_at p t = Some (g, rest)"
  shows "length rest < length t"
proof -
  obtain lit opt where p: "p = Pattern lit opt" by (cases p)
  let ?r = "drop (length lit) t"
  from assms p have "match_braced ?r = Some (g, rest)
      \<or> (\<exists>r'. match_bracket ?r = Some r' \<and> match_braced r' = Some (g, rest))"
    by (auto simp: match_at_def Let_def split: if_splits option.splits)
  then show ?thesis
  proof
    assume "match_braced ?r = Some (g, rest)"
    then have "length rest < length ?r" by (rule match_braced_shorter)
    then show ?thesis by simp
  next
    assume "\<exists>r'. match_bracket ?r = Some r' \<and> match_braced r' = Some (g, rest)"
    then obtain r' where "match_bracket ?r = Some r'" "match_braced r' = Some (g, rest)" by blast
    then have "length r' < length ?r" "length rest < length r'"
      by (auto dest: match_bracket_shorter match_braced_shorter)
    then show ?thesis by simp
  qed
qed

text \<open>
  \<open>re.finditer\<close>: the matches from left to right, each search resuming where the previous
  match ended.  A match is its start offset and its captured group.
\<close>

function finditer_from :: "pattern \<Rightarrow> nat \<Rightarrow> string \<Rightarrow> (nat \<times> string) list" where
  "finditer_from p i [] = []"
| "finditer_from p i (c # cs) =
     (case match_at p (c # cs) of
        None \<Rightarrow> finditer_from p (Suc i) cs
      | Some (g, rest) \<Rightarrow> (i, g) # finditer_from p (i + (length (c # cs) - length rest)) rest)"
  by pat_completeness auto

termination
  by (relation "measure (\<lambda>(p, i, t). length t)") (auto dest: match_at_shorter)

definition finditer :: "pattern \<Rightarrow> string \<Rightarrow> (nat \<times> string) list" where
  "finditer p t = finditer_from p 0 t"

definition findall :: "pattern \<Rightarrow> string \<Rightarrow> string list" where
  "findall p t = map snd (finditer p t)"

definition search :: "pattern \<Rightarrow> string \<Rightarrow> string option" where
  "search p t = (case finditer p t of [] \<Rightarrow> None | (i, g) # _ \<Rightarrow> Some g)"

section \<open>The validator (\<open>_validate_latex\<close>)\<close>

text \<open>Decimal numerals, as an f-string prints a count.\<close>

fun str_nat :: "nat \<Rightarrow> string" where
  "str_nat n = (if n < 10 then [''0123456789'' ! n] else str_nat (n div 10) @ [''0123456789'' ! (n mod 10)])"

text \<open>
  Lines 485 to 487: the loop \<open>for env in begins\<close>, with the list it runs over as third
  argument and the issues collected so far as fourth.
\<close>

fun environment_loop :: "string list \<Rightarrow> string list \<Rightarrow> string list \<Rightarrow> string list \<Rightarrow> string list" where
  "environment_loop begins ends [] issues = issues"
| "environment_loop begins ends (env # rest) issues =
     environment_loop begins ends rest
       (if count_list begins env \<noteq> count_list ends env
        then issues @ [''Unmatched environment: '' @ env]
        else issues)"

definition environment_issues :: "string \<Rightarrow> string list" where
  "environment_issues content =
     (let begins = findall (Pattern (BSL # ''begin'') False) content;
          ends = findall (Pattern (BSL # ''end'') False) content
      in environment_loop begins ends begins [])"

section \<open>Paths\<close>

text \<open>
  A \<open>pathlib\<close> path on a POSIX system: its root and its components.  The root is empty
  for a relative path, one slash for an absolute one, and two slashes for a path written
  with exactly two leading slashes, which \<open>pathlib\<close> keeps apart.  \<open>path_of\<close> is
  \<open>Path(s)\<close> (empty components and single dots are dropped, double dots are kept),
  \<open>absolute\<close> is \<open>p.is_absolute()\<close>, \<open>path_str\<close> is \<open>str(p)\<close>, \<open>joinpath\<close> is
  \<open>a / b\<close> and \<open>parent\<close> is \<open>p.parent\<close>.
\<close>

record pure_path =
  root :: string
  parts :: "string list"

definition root_of :: "string \<Rightarrow> string" where
  "root_of s =
     (case s of
        [] \<Rightarrow> []
      | c # cs \<Rightarrow>
          if c \<noteq> CHR ''/'' then []
          else
            (case cs of
               [] \<Rightarrow> ''/''
             | d # ds \<Rightarrow>
                 if d \<noteq> CHR ''/'' then ''/''
                 else (case ds of [] \<Rightarrow> ''//'' | e # es \<Rightarrow> if e = CHR ''/'' then ''/'' else ''//'')))"

definition path_of :: "string \<Rightarrow> pure_path" where
  "path_of s =
     \<lparr>root = root_of s,
      parts = filter (\<lambda>p. p \<noteq> [] \<and> p \<noteq> ''.'') (split_on s ''/'')\<rparr>"

definition absolute :: "pure_path \<Rightarrow> bool" where
  "absolute p = (root p \<noteq> [])"

definition path_str :: "pure_path \<Rightarrow> string" where
  "path_str p =
     (if absolute p then root p @ join ''/'' (parts p)
      else if parts p = [] then ''.''
      else join ''/'' (parts p))"

definition joinpath :: "pure_path \<Rightarrow> pure_path \<Rightarrow> pure_path" where
  "joinpath a b = (if absolute b then b else \<lparr>root = root a, parts = parts a @ parts b\<rparr>)"

definition parent :: "pure_path \<Rightarrow> pure_path" where
  "parent p = \<lparr>root = root p, parts = butlast (parts p)\<rparr>"

section \<open>The platform\<close>

text \<open>
  Exceptions, as values.  \<open>PathOutside\<close> is the \<open>ValueError\<close> that \<open>_get_file_path\<close>
  raises, with the path given and the allowed root; the others are raised by the library:
  \<open>relative_to\<close>, the operating system, and the binding of keyword arguments.
\<close>

datatype os_fault = IsADirectory | NoSuchFile | FileExists | NotADirectory

datatype exn =
    PathOutside string "string list"
  | NotInSubpath pure_path pure_path
  | OSError os_fault pure_path
  | TypeError string "string list"

text \<open>A node of the file system: a file with its text, or a directory.\<close>

datatype node = File string | Dir

text \<open>
  What the server takes from the interpreter and the operating system and the source does not
  define: \<open>resolve\<close> is \<open>Path.resolve\<close>, giving the components of the canonical absolute
  path; \<open>glob\<close> is \<open>Path.glob\<close> on a file system; \<open>st_size\<close> is the size \<open>stat\<close>
  reports; \<open>exn_text\<close> is \<open>str(e)\<close> of an exception the library raises; \<open>set_order\<close>
  is the order in which the \<open>set\<close> of the strings of a list is iterated.  The properties
  below hold for every such platform.
\<close>

record runtime =
  resolve :: "pure_path \<Rightarrow> string list"
  glob :: "(string list \<rightharpoonup> node) \<Rightarrow> pure_path \<Rightarrow> string \<Rightarrow> pure_path list"
  st_size :: "(string list \<rightharpoonup> node) \<Rightarrow> pure_path \<Rightarrow> nat"
  exn_text :: "exn \<Rightarrow> string"
  set_order :: "string list \<Rightarrow> string list"

text \<open>The server object: the base path, resolved when the server is created.\<close>

record server =
  base_path :: pure_path

definition str_exn :: "runtime \<Rightarrow> exn \<Rightarrow> string" where
  "str_exn rt e =
     (case e of
        PathOutside file_path allowed \<Rightarrow>
          ''Path '' @ file_path @ '' is outside the allowed base path (''
            @ path_str \<lparr>root = ''/'', parts = allowed\<rparr> @ '')''
      | _ \<Rightarrow> exn_text rt e)"

section \<open>The path resolver (\<open>_get_file_path\<close>)\<close>

definition target_path :: "server \<Rightarrow> string \<Rightarrow> pure_path" where
  "target_path srv file_path =
     (let path = path_of file_path
      in if \<not> absolute path then joinpath (base_path srv) path else path)"

definition allowed_base :: "runtime \<Rightarrow> server \<Rightarrow> string list" where
  "allowed_base rt srv = resolve rt (parent (base_path srv))"

text \<open>
  \<open>path.resolve().relative_to(allowed_base)\<close> raises \<open>ValueError\<close> when the canonical path
  is not under the allowed root, and \<open>Path.resolve\<close> itself raises \<open>ValueError\<close> for a path
  holding a NUL character; the \<open>except ValueError\<close> clause answers both with the same error.
\<close>

definition get_file_path :: "runtime \<Rightarrow> server \<Rightarrow> string \<Rightarrow> exn + pure_path" where
  "get_file_path rt srv file_path =
     (let path = target_path srv file_path
      in if CHR 0x00 \<in> set file_path then Inl (PathOutside file_path (allowed_base rt srv))
         else if prefix (allowed_base rt srv) (resolve rt path) then Inr path
         else Inl (PathOutside file_path (allowed_base rt srv)))"

section \<open>The file system\<close>

text \<open>
  The state is the nodes of the file system, by canonical path, and the log of the calls the
  server has made on it, in order.
\<close>

datatype io_event =
    Exists "string list"
  | IsDir "string list"
  | ReadText "string list"
  | WriteText "string list" string
  | Mkdir "string list"
  | Glob "string list" string
  | Stat "string list"

record world =
  nodes :: "string list \<rightharpoonup> node"
  io_log :: "io_event list"

definition logged :: "io_event \<Rightarrow> world \<Rightarrow> world" where
  "logged ev w = w\<lparr>io_log := io_log w @ [ev]\<rparr>"

text \<open>
  The operating system opens a path as it is written, component by component: every
  component before the last must be there and be a directory when it is reached, also one
  that a later double dot leaves again.  \<open>walk_fault\<close> is the error of the first component
  that is not, if any; the node of a path and of each of its leading parts is looked up at
  its canonical form.
\<close>

fun first_fault :: "runtime \<Rightarrow> (string list \<rightharpoonup> node) \<Rightarrow> pure_path list \<Rightarrow> os_fault option" where
  "first_fault rt ns [] = None"
| "first_fault rt ns (q # qs) =
     (case ns (resolve rt q) of
        None \<Rightarrow> Some NoSuchFile
      | Some (File stored) \<Rightarrow> Some NotADirectory
      | Some Dir \<Rightarrow> first_fault rt ns qs)"

definition leading_paths :: "pure_path \<Rightarrow> pure_path list" where
  "leading_paths p = map (\<lambda>ps. \<lparr>root = root p, parts = ps\<rparr>) (butlast (tl (prefixes (parts p))))"

definition walk_fault :: "runtime \<Rightarrow> (string list \<rightharpoonup> node) \<Rightarrow> pure_path \<Rightarrow> os_fault option" where
  "walk_fault rt ns p = first_fault rt ns (leading_paths p)"

text \<open>
  \<open>read_text\<close> opens in text mode: a carriage return, with or without a line feed after
  it, is read as a line feed.  \<open>write_text\<close> on a POSIX system writes the text as it is.
  Decoding errors and permissions are not modelled.
\<close>

fun universal_newlines :: "string \<Rightarrow> string" where
  "universal_newlines [] = []"
| "universal_newlines (c # cs) =
     (if c = CR then
        (case cs of
           [] \<Rightarrow> [NL]
         | d # ds \<Rightarrow> if d = NL then NL # universal_newlines ds else NL # universal_newlines cs)
      else c # universal_newlines cs)"

definition path_exists :: "runtime \<Rightarrow> world \<Rightarrow> pure_path \<Rightarrow> bool \<times> world" where
  "path_exists rt w p =
     (walk_fault rt (nodes w) p = None \<and> nodes w (resolve rt p) \<noteq> None,
      logged (Exists (resolve rt p)) w)"

definition path_is_dir :: "runtime \<Rightarrow> world \<Rightarrow> pure_path \<Rightarrow> bool \<times> world" where
  "path_is_dir rt w p =
     (walk_fault rt (nodes w) p = None \<and> nodes w (resolve rt p) = Some Dir,
      logged (IsDir (resolve rt p)) w)"

definition read_text :: "runtime \<Rightarrow> world \<Rightarrow> pure_path \<Rightarrow> (exn + string) \<times> world" where
  "read_text rt w p =
     (case walk_fault rt (nodes w) p of
        Some fault \<Rightarrow> (Inl (OSError fault p), logged (ReadText (resolve rt p)) w)
      | None \<Rightarrow>
          (case nodes w (resolve rt p) of
             None \<Rightarrow> (Inl (OSError NoSuchFile p), logged (ReadText (resolve rt p)) w)
           | Some Dir \<Rightarrow> (Inl (OSError IsADirectory p), logged (ReadText (resolve rt p)) w)
           | Some (File stored) \<Rightarrow>
               (Inr (universal_newlines stored), logged (ReadText (resolve rt p)) w)))"

definition write_text :: "runtime \<Rightarrow> world \<Rightarrow> pure_path \<Rightarrow> string \<Rightarrow> (exn + unit) \<times> world" where
  "write_text rt w p content =
     (let target = resolve rt p in
      case walk_fault rt (nodes w) p of
        Some fault \<Rightarrow> (Inl (OSError fault p), logged (WriteText target content) w)
      | None \<Rightarrow>
          if nodes w target = Some Dir
          then (Inl (OSError IsADirectory p), logged (WriteText target content) w)
          else (Inr (),
                logged (WriteText target content)
                  (w\<lparr>nodes := (nodes w)(target \<mapsto> File content)\<rparr>)))"

text \<open>
  \<open>os.mkdir\<close>: the path must be reachable and must not be there yet.
\<close>

definition os_mkdir :: "runtime \<Rightarrow> (string list \<rightharpoonup> node) \<Rightarrow> pure_path \<Rightarrow> os_fault + (string list \<rightharpoonup> node)" where
  "os_mkdir rt ns p =
     (case walk_fault rt ns p of
        Some fault \<Rightarrow> Inl fault
      | None \<Rightarrow> if ns (resolve rt p) \<noteq> None then Inl FileExists else Inr (ns(resolve rt p \<mapsto> Dir)))"

text \<open>
  \<open>Path.mkdir(parents=True, exist_ok=True)\<close>, as \<open>pathlib\<close> does it: it tries to make the
  directory; when a component on the way is missing it first makes the parent in the same
  way and then tries again; any other error is passed over when the path is a directory.
  The directories are made along the path as written, so the result is the error, if any,
  and the nodes as they are then.
\<close>

function mkdir_tree ::
  "runtime \<Rightarrow> (string list \<rightharpoonup> node) \<Rightarrow> pure_path \<Rightarrow> exn option \<times> (string list \<rightharpoonup> node)" where
  "mkdir_tree rt ns p =
     (case os_mkdir rt ns p of
        Inr ns1 \<Rightarrow> (None, ns1)
      | Inl fault \<Rightarrow>
          if fault = NoSuchFile then
            (if parts p = [] then (Some (OSError fault p), ns)
             else
               (case mkdir_tree rt ns (parent p) of
                  (Some e, ns1) \<Rightarrow> (Some e, ns1)
                | (None, ns1) \<Rightarrow>
                    (case os_mkdir rt ns1 p of
                       Inr ns2 \<Rightarrow> (None, ns2)
                     | Inl fault2 \<Rightarrow>
                         if fault2 \<noteq> NoSuchFile \<and> walk_fault rt ns1 p = None
                            \<and> ns1 (resolve rt p) = Some Dir
                         then (None, ns1)
                         else (Some (OSError fault2 p), ns1))))
          else if walk_fault rt ns p = None \<and> ns (resolve rt p) = Some Dir then (None, ns)
          else (Some (OSError fault p), ns))"
  by pat_completeness auto

termination
  by (relation "measure (\<lambda>(rt, ns, p). length (parts p))") (auto simp: parent_def)

definition mkdir_parents :: "runtime \<Rightarrow> world \<Rightarrow> pure_path \<Rightarrow> (exn + unit) \<times> world" where
  "mkdir_parents rt w p =
     (case mkdir_tree rt (nodes w) p of
        (Some e, ns) \<Rightarrow> (Inl e, logged (Mkdir (resolve rt p)) (w\<lparr>nodes := ns\<rparr>))
      | (None, ns) \<Rightarrow> (Inr (), logged (Mkdir (resolve rt p)) (w\<lparr>nodes := ns\<rparr>)))"

definition stat_size :: "runtime \<Rightarrow> world \<Rightarrow> pure_path \<Rightarrow> nat \<times> world" where
  "stat_size rt w p = (st_size rt (nodes w) p, logged (Stat (resolve rt p)) w)"

definition glob_paths :: "runtime \<Rightarrow> world \<Rightarrow> pure_path \<Rightarrow> string \<Rightarrow> pure_path list \<times> world" where
  "glob_paths rt w p pat = (glob rt (nodes w) p pat, logged (Glob (resolve rt p) pat) w)"

section \<open>Results\<close>

text \<open>
  A handler returns a text.  The model keeps, beside the text, whether the call succeeded and
  the kind of failure otherwise: path escape, file or directory not found, missing edit
  field, unknown operation, unknown tool, or an exception caught.
\<close>

datatype failure =
  PathEscape | FileNotFound | MissingField | UnknownOperation | UnknownTool | InternalException

datatype outcome = Success string | Failure failure string

fun text_of :: "outcome \<Rightarrow> string" where
  "text_of (Success text) = text"
| "text_of (Failure kind text) = text"

fun failed :: "outcome \<Rightarrow> bool" where
  "failed (Success text) = False"
| "failed (Failure kind text) = True"

text \<open>The \<open>except Exception as e\<close> branch of a handler, whose message starts with \<open>label\<close>.\<close>

definition caught :: "runtime \<Rightarrow> string \<Rightarrow> exn \<Rightarrow> outcome" where
  "caught rt label e =
     Failure (case e of PathOutside file_path allowed \<Rightarrow> PathEscape | _ \<Rightarrow> InternalException)
       (label @ str_exn rt e)"

section \<open>The handlers\<close>

definition create_latex_file ::
  "runtime \<Rightarrow> server \<Rightarrow> world \<Rightarrow> string \<Rightarrow> string \<Rightarrow> string \<Rightarrow> string \<Rightarrow> string \<Rightarrow> string
     \<Rightarrow> string list \<Rightarrow> string \<Rightarrow> outcome \<times> world" where
  "create_latex_file rt srv w file_path document_type title author date content packages geometry =
     (case get_file_path rt srv file_path of
        Inl e \<Rightarrow> (caught rt ''Error creating LaTeX file: '' e, w)
      | Inr path \<Rightarrow>
          (case mkdir_parents rt w (parent path) of
             (Inl e, w1) \<Rightarrow> (caught rt ''Error creating LaTeX file: '' e, w1)
           | (Inr u, w1) \<Rightarrow>
               (let latex_content =
                      create_latex_template document_type title author date content packages geometry
                in case write_text rt w1 path latex_content of
                     (Inl e, w2) \<Rightarrow> (caught rt ''Error creating LaTeX file: '' e, w2)
                   | (Inr u, w2) \<Rightarrow>
                       (Success (''Successfully created LaTeX file: '' @ path_str path
                                  @ [NL, NL] @ ''Content:'' @ [NL] @ latex_content),
                        w2))))"

definition edit_failure :: "edit_error \<Rightarrow> failure" where
  "edit_failure e =
     (case e of
        SearchTextRequired \<Rightarrow> MissingField
      | SearchOrLineRequired \<Rightarrow> MissingField
      | OperationUnknown operation \<Rightarrow> UnknownOperation)"

definition edit_latex_file ::
  "runtime \<Rightarrow> server \<Rightarrow> world \<Rightarrow> string \<Rightarrow> string \<Rightarrow> string \<Rightarrow> string option \<Rightarrow> int option
     \<Rightarrow> outcome \<times> world" where
  "edit_latex_file rt srv w file_path operation new_text search_text line_number =
     (case get_file_path rt srv file_path of
        Inl e \<Rightarrow> (caught rt ''Error editing LaTeX file: '' e, w)
      | Inr path \<Rightarrow>
          (case path_exists rt w path of
             (False, w1) \<Rightarrow> (Failure FileNotFound (''File not found: '' @ path_str path), w1)
           | (True, w1) \<Rightarrow>
               (case read_text rt w1 path of
                  (Inl e, w2) \<Rightarrow> (caught rt ''Error editing LaTeX file: '' e, w2)
                | (Inr content, w2) \<Rightarrow>
                    (case edit_content content operation new_text search_text line_number of
                       Inl err \<Rightarrow> (Failure (edit_failure err) (edit_error_text err), w2)
                     | Inr content' \<Rightarrow>
                         (case write_text rt w2 path content' of
                            (Inl e, w3) \<Rightarrow> (caught rt ''Error editing LaTeX file: '' e, w3)
                          | (Inr u, w3) \<Rightarrow>
                              (Success (''Successfully edited LaTeX file: '' @ path_str path
                                         @ [NL, NL] @ ''Operation: '' @ operation @ [NL]
                                         @ ''File updated.''),
                               w3))))))"

definition read_latex_file :: "runtime \<Rightarrow> server \<Rightarrow> world \<Rightarrow> string \<Rightarrow> outcome \<times> world" where
  "read_latex_file rt srv w file_path =
     (case get_file_path rt srv file_path of
        Inl e \<Rightarrow> (caught rt ''Error reading LaTeX file: '' e, w)
      | Inr path \<Rightarrow>
          (case path_exists rt w path of
             (False, w1) \<Rightarrow> (Failure FileNotFound (''File not found: '' @ path_str path), w1)
           | (True, w1) \<Rightarrow>
               (case read_text rt w1 path of
                  (Inl e, w2) \<Rightarrow> (caught rt ''Error reading LaTeX file: '' e, w2)
                | (Inr content, w2) \<Rightarrow>
                    (Success (''Contents of '' @ path_str path @ '':'' @ [NL, NL] @ content), w2))))"

text \<open>\<open>tex_file.relative_to(self.base_path)\<close>, on the components as written.\<close>

definition relative_to :: "pure_path \<Rightarrow> pure_path \<Rightarrow> exn + pure_path" where
  "relative_to p other =
     (if root p = root other \<and> prefix (parts other) (parts p)
      then Inr \<lparr>root = [], parts = drop (length (parts other)) (parts p)\<rparr>
      else Inl (NotInSubpath p other))"

text \<open>
  The loop over \<open>sorted(tex_files)\<close>, with the lines collected so far.  Paths are ordered
  by their components.
\<close>

primrec list_loop ::
  "runtime \<Rightarrow> server \<Rightarrow> pure_path list \<Rightarrow> string list \<Rightarrow> world \<Rightarrow> (exn + string list) \<times> world" where
  "list_loop rt srv [] file_list w = (Inr file_list, w)"
| "list_loop rt srv (tex_file # rest) file_list w =
     (case relative_to tex_file (base_path srv) of
        Inl e \<Rightarrow> (Inl e, w)
      | Inr relative_path \<Rightarrow>
          (case stat_size rt w tex_file of
             (file_size, w1) \<Rightarrow>
               list_loop rt srv rest
                 (file_list @ [''  '' @ path_str relative_path @ '' ('' @ str_nat file_size @ '' bytes)''])
                 w1))"

definition list_latex_files :: "runtime \<Rightarrow> server \<Rightarrow> world \<Rightarrow> string \<Rightarrow> bool \<Rightarrow> outcome \<times> world" where
  "list_latex_files rt srv w directory_path recursive =
     (case get_file_path rt srv directory_path of
        Inl e \<Rightarrow> (caught rt ''Error listing LaTeX files: '' e, w)
      | Inr dir_path \<Rightarrow>
          (case path_exists rt w dir_path of
             (False, w1) \<Rightarrow> (Failure FileNotFound (''Directory not found: '' @ path_str dir_path), w1)
           | (True, w1) \<Rightarrow>
               (case path_is_dir rt w1 dir_path of
                  (False, w2) \<Rightarrow>
                    (Failure FileNotFound (''Directory not found: '' @ path_str dir_path), w2)
                | (True, w2) \<Rightarrow>
                    (case glob_paths rt w2 dir_path (if recursive then ''**/*.tex'' else ''*.tex'') of
                       (tex_files, w3) \<Rightarrow>
                         if tex_files = []
                         then (Success (''No LaTeX files found in '' @ path_str dir_path), w3)
                         else
                           (case list_loop rt srv (sort_key parts tex_files) [] w3 of
                              (Inl e, w4) \<Rightarrow> (caught rt ''Error listing LaTeX files: '' e, w4)
                            | (Inr file_list, w4) \<Rightarrow>
                                (Success (''LaTeX files in '' @ path_str dir_path @ '':'' @ [NL, NL]
                                           @ join [NL] file_list),
                                 w4))))))"

text \<open>The list \<open>issues\<close> of \<open>_validate_latex\<close>, from the content read.\<close>

definition validate_issues :: "runtime \<Rightarrow> string \<Rightarrow> string list" where
  "validate_issues rt content =
     (let issues = [];
          issues = (if \<not> sublist (BSL # ''documentclass'') content
                    then issues @ [''Missing '' @ BSL # ''documentclass declaration''] else issues);
          issues = (if \<not> sublist (BSL # ''begin{document}'') content
                    then issues @ [''Missing '' @ BSL # ''begin{document}''] else issues);
          issues = (if \<not> sublist (BSL # ''end{document}'') content
                    then issues @ [''Missing '' @ BSL # ''end{document}''] else issues);
          open_braces = py_count content ''{'';
          close_braces = py_count content ''}'';
          issues = (if open_braces \<noteq> close_braces
                    then issues @ [''Unbalanced braces: '' @ str_nat open_braces @ '' opening, ''
                                     @ str_nat close_braces @ '' closing'']
                    else issues);
          begins = findall (Pattern (BSL # ''begin'') False) content;
          ends = findall (Pattern (BSL # ''end'') False) content;
          issues = environment_loop begins ends begins issues;
          refs = findall (Pattern (BSL # ''ref'') False) content;
          labels = findall (Pattern (BSL # ''label'') False) content;
          undefined_refs = filter (\<lambda>r. r \<notin> set labels) refs;
          issues = (if undefined_refs \<noteq> []
                    then issues @ [''Undefined references: ''
                                     @ join '', '' (set_order rt undefined_refs)]
                    else issues)
      in issues)"

definition validate_latex :: "runtime \<Rightarrow> server \<Rightarrow> world \<Rightarrow> string \<Rightarrow> outcome \<times> world" where
  "validate_latex rt srv w file_path =
     (case get_file_path rt srv file_path of
        Inl e \<Rightarrow> (caught rt ''Error validating LaTeX file: '' e, w)
      | Inr path \<Rightarrow>
          (case path_exists rt w path of
             (False, w1) \<Rightarrow> (Failure FileNotFound (''File not found: '' @ path_str path), w1)
           | (True, w1) \<Rightarrow>
               (case read_text rt w1 path of
                  (Inl e, w2) \<Rightarrow> (caught rt ''Error validating LaTeX file: '' e, w2)
                | (Inr content, w2) \<Rightarrow>
                    (let issues = validate_issues rt content in
                     if issues \<noteq> []
                     then (Success (''LaTeX validation issues found in '' @ path_str path @ '':''
                                     @ [NL, NL] @ join [NL] (map (\<lambda>issue. ''- '' @ issue) issues)),
                           w2)
                     else (Success (''LaTeX file '' @ path_str path
                                     @ '' appears to be valid (basic checks passed)''),
                           w2)))))"

text \<open>
  The list \<open>section_patterns\<close> and the nested loop over it: for each pattern, in the order
  of the list, every match in the order \<open>re.finditer\<close> yields them.  A match is kept with
  its level and its offset; \<open>section_line\<close> is the line appended for it.
\<close>

definition section_patterns :: "(pattern \<times> string) list" where
  "section_patterns =
     [(Pattern (BSL # ''part'') False, ''Part''),
      (Pattern (BSL # ''chapter'') False, ''Chapter''),
      (Pattern (BSL # ''section'') False, ''Section''),
      (Pattern (BSL # ''subsection'') False, ''Subsection''),
      (Pattern (BSL # ''subsubsection'') False, ''Subsubsection''),
      (Pattern (BSL # ''paragraph'') False, ''Paragraph''),
      (Pattern (BSL # ''subparagraph'') False, ''Subparagraph'')]"

definition section_matches :: "string \<Rightarrow> (string \<times> nat \<times> string) list" where
  "section_matches content =
     concat (map (\<lambda>(pat, level). map (\<lambda>(pos, heading). (level, pos, heading)) (finditer pat content))
               section_patterns)"

definition section_line :: "string \<times> nat \<times> string \<Rightarrow> string" where
  "section_line m = (case m of (level, pos, heading) \<Rightarrow> ''  '' @ level @ '': '' @ heading)"

definition latex_structure :: "runtime \<Rightarrow> string \<Rightarrow> string list" where
  "latex_structure rt content =
     (let structure = [];
          structure =
            (case search (Pattern (BSL # ''documentclass'') True) content of
               Some g \<Rightarrow> structure @ [''Document class: '' @ g] | None \<Rightarrow> structure);
          structure =
            (case search (Pattern (BSL # ''title'') False) content of
               Some g \<Rightarrow> structure @ [''Title: '' @ g] | None \<Rightarrow> structure);
          structure =
            (case search (Pattern (BSL # ''author'') False) content of
               Some g \<Rightarrow> structure @ [''Author: '' @ g] | None \<Rightarrow> structure);
          structure = structure @ [NL # ''Document structure:''];
          structure = structure @ map section_line (section_matches content);
          packages = findall (Pattern (BSL # ''usepackage'') True) content;
          structure =
            (if packages \<noteq> []
             then structure @ [NL # ''Packages used: '' @ join '', '' (set_order rt packages)]
             else structure)
      in structure)"

definition get_latex_structure :: "runtime \<Rightarrow> server \<Rightarrow> world \<Rightarrow> string \<Rightarrow> outcome \<times> world" where
  "get_latex_structure rt srv w file_path =
     (case get_file_path rt srv file_path of
        Inl e \<Rightarrow> (caught rt ''Error analyzing LaTeX structure: '' e, w)
      | Inr path \<Rightarrow>
          (case path_exists rt w path of
             (False, w1) \<Rightarrow> (Failure FileNotFound (''File not found: '' @ path_str path), w1)
           | (True, w1) \<Rightarrow>
               (case read_text rt w1 path of
                  (Inl e, w2) \<Rightarrow> (caught rt ''Error analyzing LaTeX structure: '' e, w2)
                | (Inr content, w2) \<Rightarrow>
                    (Success (''Structure of '' @ path_str path @ '':'' @ [NL, NL]
                               @ join [NL] (latex_structure rt content)),
                     w2))))"

section \<open>The dispatcher (\<open>call_tool\<close>)\<close>








section \<open>Notions used to state the properties\<close>

text \<open>
  \<open>occurs_at p t i\<close>: the piece \<open>p\<close> occurs in the text \<open>t\<close> at offset \<open>i\<close>.
  \<open>occurs_in_order ps t\<close>: the pieces \<open>ps\<close> occur in \<open>t\<close> at strictly increasing
  offsets, in the order of the list.  The search is exhaustive: at every offset where the
  first piece occurs, both taking and skipping that occurrence are tried; that it finds the
  pieces exactly when such offsets exist is proved below.
\<close>

definition occurs_at :: "string \<Rightarrow> string \<Rightarrow> nat \<Rightarrow> bool" where
  "occurs_at p t i = (i \<le> length t \<and> prefix p (drop i t))"

fun occurs_in_order :: "string list \<Rightarrow> string \<Rightarrow> bool" where
  "occurs_in_order [] t = True"
| "occurs_in_order (p # ps) [] = (p = [] \<and> ps = [])"
| "occurs_in_order (p # ps) (c # cs) =
     (if prefix p (c # cs)
      then (if occurs_in_order ps cs then True else occurs_in_order (p # ps) cs)
      else occurs_in_order (p # ps) cs)"


text \<open>The position of a level in \<open>section_patterns\<close>.\<close>

fun index_of :: "'a \<Rightarrow> 'a list \<Rightarrow> nat" where
  "index_of x [] = 0"
| "index_of x (y # ys) = (if x = y then 0 else Suc (index_of x ys))"

definition level_rank :: "string \<Rightarrow> nat" where
  "level_rank level = index_of level (map snd section_patterns)"

text \<open>The events that change the file system.\<close>

definition is_write :: "io_event \<Rightarrow> bool" where
  "is_write ev = (case ev of WriteText k text \<Rightarrow> True | Mkdir k \<Rightarrow> True | _ \<Rightarrow> False)"





text \<open>
  An example platform without symbolic links (a path is resolved by removing double dots), a
  server on \<open>/srv/tex/docs\<close> and a file system holding \<open>/srv/tex/docs/a.tex\<close>.
\<close>

fun lexical :: "string list \<Rightarrow> string list \<Rightarrow> string list" where
  "lexical seen [] = seen"
| "lexical seen (p # ps) = (if p = ''..'' then lexical (butlast seen) ps else lexical (seen @ [p]) ps)"

definition example_runtime :: runtime where
  "example_runtime =
     \<lparr>resolve = (\<lambda>p. lexical [] (parts p)),
      glob = (\<lambda>ns d pat. []),
      st_size = (\<lambda>ns p. 0),
      exn_text = (\<lambda>e. ''exception''),
      set_order = remdups\<rparr>"

definition example_server :: server where
  "example_server = \<lparr>base_path = \<lparr>root = ''/'', parts = [''srv'', ''tex'', ''docs'']\<rparr>\<rparr>"

definition example_world :: world where
  "example_world =
     \<lparr>nodes = [[''srv''] \<mapsto> Dir, [''srv'', ''tex''] \<mapsto> Dir, [''srv'', ''tex'', ''docs''] \<mapsto> Dir,
               [''srv'', ''tex'', ''docs'', ''a.tex''] \<mapsto> File (''one'' @ [NL] @ ''two'')],
      io_log = []\<rparr>"



text \<open>The definitions unfolded to evaluate a call on the example platform.\<close>

lemmas path_defs =
  path_of_def root_of_def absolute_def joinpath_def parent_def path_str_def target_path_def
  allowed_base_def get_file_path_def

lemmas file_defs =
  path_exists_def path_is_dir_def read_text_def write_text_def os_mkdir_def walk_fault_def
  leading_paths_def logged_def

section \<open>Properties of the string functions\<close>

lemma split_on_not_Nil: "split_on s sep \<noteq> []"
  by (induction s sep rule: split_on.induct) (auto split: list.splits)

lemma join_Cons_Cons: "join sep ((c # p) # ps) = c # join sep (p # ps)"
  by (cases ps) auto

lemma join_Nil_Cons: "xs \<noteq> [] \<Longrightarrow> join sep ([] # xs) = sep @ join sep xs"
  by (cases xs) auto

lemma join_split_on: "sep \<noteq> [] \<Longrightarrow> join sep (split_on s sep) = s"
proof (induction s sep rule: split_on.induct)
  case (1 sep)
  then show ?case by simp
next
  case (2 c cs sep)
  show ?case
  proof (cases "prefix sep (c # cs)")
    case True
    with 2 have "join sep (split_on (drop (length sep) (c # cs)) sep) = drop (length sep) (c # cs)"
      by simp
    moreover from True have "sep @ drop (length sep) (c # cs) = c # cs"
      by (metis append_eq_conv_conj prefixE)
    ultimately show ?thesis using True 2(3) by (simp add: join_Nil_Cons split_on_not_Nil)
  next
    case False
    with 2 have "join sep (split_on cs sep) = cs" by simp
    with False show ?thesis
      by (cases "split_on cs sep") (simp_all add: split_on_not_Nil join_Cons_Cons)
  qed
qed

lemma py_replace_split_on: "old \<noteq> [] \<Longrightarrow> py_replace s old new = join new (split_on s old)"
proof (induction s old new rule: py_replace.induct)
  case (1 old new)
  then show ?case by simp
next
  case (2 c cs old new)
  show ?case
  proof (cases "prefix old (c # cs)")
    case True
    with 2 show ?thesis by (simp add: join_Nil_Cons split_on_not_Nil)
  next
    case False
    with 2 show ?thesis
      by (cases "split_on cs old") (simp_all add: split_on_not_Nil join_Cons_Cons)
  qed
qed

lemma length_split_on: "sep \<noteq> [] \<Longrightarrow> length (split_on s sep) = Suc (py_count s sep)"
proof (induction s sep rule: split_on.induct)
  case (1 sep)
  then show ?case by simp
next
  case (2 c cs sep)
  then show ?case
    by (cases "prefix sep (c # cs)"; cases "split_on cs sep") (simp_all add: split_on_not_Nil)
qed

lemma hd_split_on_prefix: "prefix (hd (split_on s sep)) s"
proof (induction s sep rule: split_on.induct)
  case (1 sep)
  then show ?case by simp
next
  case (2 c cs sep)
  then show ?case
    by (cases "sep \<noteq> [] \<and> prefix sep (c # cs)"; cases "split_on cs sep") (auto simp: split_on_not_Nil)
qed

lemma split_on_pieces_free: "sep \<noteq> [] \<Longrightarrow> p \<in> set (split_on s sep) \<Longrightarrow> \<not> sublist sep p"
proof (induction s sep arbitrary: p rule: split_on.induct)
  case (1 sep)
  then show ?case by simp
next
  case (2 c cs sep)
  show ?case
  proof (cases "prefix sep (c # cs)")
    case True
    with 2 show ?thesis by auto
  next
    case False
    obtain q qs where q: "split_on cs sep = q # qs"
      using split_on_not_Nil by (cases "split_on cs sep") auto
    with False 2(4) have "p = c # q \<or> p \<in> set qs" by auto
    then show ?thesis
    proof
      assume p: "p = c # q"
      have "prefix q cs" using hd_split_on_prefix [of cs sep] q by simp
      then have "\<not> prefix sep (c # q)"
        using False by (meson Cons_prefix_Cons prefix_order.trans)
      moreover have "\<not> sublist sep q" using 2(2) [of q] False 2(3) q by simp
      ultimately show ?thesis using p 2(3) by (simp add: sublist_Cons_right)
    next
      assume "p \<in> set qs"
      then show ?thesis using 2(2) [of p] False 2(3) q by simp
    qed
  qed
qed

lemma py_replace_absent: "old \<noteq> [] \<Longrightarrow> py_count s old = 0 \<Longrightarrow> py_replace s old new = s"
  by (induction s old new rule: py_replace.induct) (auto split: if_splits)

section \<open>Properties of the template builder\<close>

text \<open>The search finds the pieces exactly when increasing offsets exist for them.\<close>

lemma occurs_at_Suc: "occurs_at p (c # cs) (Suc i) = occurs_at p cs i"
  by (simp add: occurs_at_def)

lemma occurs_at_0: "occurs_at p t 0 = prefix p t"
  by (simp add: occurs_at_def)

lemma occurs_at_Nil: "occurs_at p [] i = (i = 0 \<and> p = [])"
  by (auto simp: occurs_at_def)

lemma list_all2_occurs_shift:
  "list_all2 (\<lambda>p i. occurs_at p (c # cs) i) ps (map Suc offs)
     = list_all2 (\<lambda>p i. occurs_at p cs i) ps offs"
  by (simp add: list_all2_map2 occurs_at_Suc)

lemma sorted_wrt_map_Suc: "sorted_wrt (<) (map Suc offs) = sorted_wrt (<) offs"
  by (simp add: sorted_wrt_map)

lemma positive_offsets: "\<forall>x\<in>set offs. 0 < x \<Longrightarrow> \<exists>offs'. offs = map Suc offs'"
proof (induction offs)
  case Nil
  then show ?case by simp
next
  case (Cons x xs)
  then obtain ys where "xs = map Suc ys" by auto
  moreover from Cons.prems obtain y where "x = Suc y" by (cases x) auto
  ultimately have "x # xs = map Suc (y # ys)" by simp
  then show ?case by (rule exI)
qed

lemma occurs_in_order_offsets:
  "occurs_in_order ps t
     = (\<exists>offs. list_all2 (\<lambda>p i. occurs_at p t i) ps offs \<and> sorted_wrt (<) offs)"
proof (induction ps t rule: occurs_in_order.induct)
  case (1 t)
  show ?case by simp
next
  case (2 p ps)
  show ?case
  proof
    assume "occurs_in_order (p # ps) []"
    then have "p = []" "ps = []" by simp_all
    then have "list_all2 (\<lambda>p i. occurs_at p [] i) (p # ps) [0] \<and> sorted_wrt (<) [0::nat]"
      by (simp add: occurs_at_def)
    then show "\<exists>offs. list_all2 (\<lambda>p i. occurs_at p [] i) (p # ps) offs \<and> sorted_wrt (<) offs"
      by blast
  next
    assume "\<exists>offs. list_all2 (\<lambda>p i. occurs_at p [] i) (p # ps) offs \<and> sorted_wrt (<) offs"
    then obtain offs where a: "list_all2 (\<lambda>p i. occurs_at p [] i) (p # ps) offs"
      and s: "sorted_wrt (<) offs" by blast
    from a obtain i rest where offs: "offs = i # rest" and i: "occurs_at p [] i"
      and r: "list_all2 (\<lambda>p i. occurs_at p [] i) ps rest"
      by (auto simp: list_all2_Cons1)
    from i have "i = 0" "p = []" by (simp_all add: occurs_at_Nil)
    have "ps = []"
    proof (cases ps)
      case Nil
      then show ?thesis .
    next
      case (Cons q qs)
      with r obtain j rest' where "rest = j # rest'" "occurs_at q [] j"
        by (auto simp: list_all2_Cons1)
      with s offs \<open>i = 0\<close> show ?thesis by (simp add: occurs_at_Nil)
    qed
    with \<open>p = []\<close> show "occurs_in_order (p # ps) []" by simp
  qed
next
  case (3 p ps c cs)
  let ?R = "\<lambda>qs u. \<exists>offs. list_all2 (\<lambda>p i. occurs_at p u i) qs offs \<and> sorted_wrt (<) offs"
  have step: "?R (p # ps) (c # cs) = ((prefix p (c # cs) \<and> ?R ps cs) \<or> ?R (p # ps) cs)"
  proof
    assume "?R (p # ps) (c # cs)"
    then obtain offs where a: "list_all2 (\<lambda>p i. occurs_at p (c # cs) i) (p # ps) offs"
      and s: "sorted_wrt (<) offs" by blast
    from a obtain i rest where offs: "offs = i # rest" and i: "occurs_at p (c # cs) i"
      and r: "list_all2 (\<lambda>p i. occurs_at p (c # cs) i) ps rest"
      by (auto simp: list_all2_Cons1)
    from s offs have pos: "\<forall>x\<in>set rest. 0 < x" by auto
    then obtain rest' where rest': "rest = map Suc rest'" using positive_offsets by blast
    show "(prefix p (c # cs) \<and> ?R ps cs) \<or> ?R (p # ps) cs"
    proof (cases i)
      case 0
      with i have "prefix p (c # cs)" by (simp add: occurs_at_0)
      moreover from r rest' have "list_all2 (\<lambda>p i. occurs_at p cs i) ps rest'"
        by (simp add: list_all2_occurs_shift)
      moreover from s offs rest' have "sorted_wrt (<) rest'" by (simp add: sorted_wrt_map)
      ultimately show ?thesis by blast
    next
      case (Suc j)
      with offs rest' have "offs = map Suc (j # rest')" by simp
      with a s have "list_all2 (\<lambda>p i. occurs_at p cs i) (p # ps) (j # rest')"
        and "sorted_wrt (<) (j # rest')"
        using list_all2_occurs_shift [of c cs "p # ps" "j # rest'"]
          sorted_wrt_map_Suc [of "j # rest'"] by simp_all
      then show ?thesis by blast
    qed
  next
    assume "(prefix p (c # cs) \<and> ?R ps cs) \<or> ?R (p # ps) cs"
    then show "?R (p # ps) (c # cs)"
    proof
      assume h: "prefix p (c # cs) \<and> ?R ps cs"
      then obtain offs where a: "list_all2 (\<lambda>p i. occurs_at p cs i) ps offs"
        and s: "sorted_wrt (<) offs" by blast
      have "list_all2 (\<lambda>p i. occurs_at p (c # cs) i) (p # ps) (0 # map Suc offs)"
        using h a by (simp add: occurs_at_0 list_all2_occurs_shift)
      moreover have "sorted_wrt (<) (0 # map Suc offs)"
        using s by (simp add: sorted_wrt_map)
      ultimately show ?thesis by blast
    next
      assume "?R (p # ps) cs"
      then obtain offs where a: "list_all2 (\<lambda>p i. occurs_at p cs i) (p # ps) offs"
        and s: "sorted_wrt (<) offs" by blast
      have "list_all2 (\<lambda>p i. occurs_at p (c # cs) i) (p # ps) (map Suc offs)"
        using a list_all2_occurs_shift [of c cs "p # ps" offs] by simp
      moreover have "sorted_wrt (<) (map Suc offs)" using s by (simp add: sorted_wrt_map)
      ultimately show ?thesis by blast
    qed
  qed
  show ?case
  proof (cases "prefix p (c # cs)")
    case True
    then show ?thesis using 3(1) 3(2) step by auto
  next
    case False
    then show ?thesis using 3(3) step by auto
  qed
qed







text \<open>
  C8: the template builder is a function of its seven arguments and of nothing else: equal
  arguments give the same text.  The handler adds nothing to it: on any platform, server,
  file system and path, a successful \<open>create_latex_file\<close> leaves exactly that text in the
  file it names and returns it after a fixed heading.
\<close>

theorem template_deterministic:
  assumes "document_type = document_type'" and "title = title'" and "author = author'"
    and "date = date'" and "content = content'" and "packages = packages'"
    and "geometry = geometry'"
  shows "create_latex_template document_type title author date content packages geometry
           = create_latex_template document_type' title' author' date' content' packages' geometry'
       \<and> (\<forall>rt srv w file_path msg w'.
             create_latex_file rt srv w file_path document_type title author date content packages
               geometry = (Success msg, w') \<longrightarrow>
             nodes w' (resolve rt (target_path srv file_path))
               = Some (File (create_latex_template document_type' title' author' date' content'
                               packages' geometry'))
             \<and> msg = ''Successfully created LaTeX file: '' @ path_str (target_path srv file_path)
                       @ [NL, NL] @ ''Content:'' @ [NL]
                       @ create_latex_template document_type' title' author' date' content'
                           packages' geometry')"
  using assms
  by (auto simp: create_latex_file_def get_file_path_def write_text_def logged_def caught_def Let_def
      split: sum.splits prod.splits option.splits node.splits if_splits)

text \<open>
  C8 at the call with type article, title Test and packages [amsmath] on the example
  platform: the call succeeds, and the new file holds the text of the template builder.
\<close>

theorem template_deterministic_witness:
  "''article'' = ''article'' \<and> ''Test'' = ''Test'' \<and> [''amsmath''] = [''amsmath'']
   \<and> \<not> failed (fst (create_latex_file example_runtime example_server example_world ''new/b.tex''
                        ''article'' ''Test'' [] (BSL # ''today'') [] [''amsmath''] []))
   \<and> nodes (snd (create_latex_file example_runtime example_server example_world ''new/b.tex''
                    ''article'' ''Test'' [] (BSL # ''today'') [] [''amsmath''] []))
        [''srv'', ''tex'', ''docs'', ''new'', ''b.tex'']
       = Some (File (create_latex_template ''article'' ''Test'' [] (BSL # ''today'') []
                       [''amsmath''] []))"
proof -
  let ?R = "create_latex_file example_runtime example_server example_world ''new/b.tex''
              ''article'' ''Test'' [] (BSL # ''today'') [] [''amsmath''] []"
  have g: "get_file_path example_runtime example_server ''new/b.tex''
             = Inr \<lparr>root = ''/'', parts = [''srv'', ''tex'', ''docs'', ''new'', ''b.tex'']\<rparr>"
    by (simp add: get_file_path_def target_path_def allowed_base_def example_runtime_def path_defs file_defs
          example_server_def path_of_def joinpath_def parent_def Let_def)
  have t: "resolve example_runtime (target_path example_server ''new/b.tex'')
             = [''srv'', ''tex'', ''docs'', ''new'', ''b.tex'']"
    by (simp add: target_path_def example_runtime_def path_defs file_defs example_server_def path_of_def joinpath_def
          Let_def)
  have s: "\<not> failed (fst ?R)"
    unfolding create_latex_file_def g
    by (simp add: mkdir_parents_def write_text_def logged_def parent_def
          example_runtime_def path_defs file_defs example_world_def Let_def)
  then have e: "?R = (Success (text_of (fst ?R)), snd ?R)"
    by (cases "fst ?R") (simp_all add: prod_eq_iff)
  have d: "\<forall>rt srv w file_path msg w'.
             create_latex_file rt srv w file_path ''article'' ''Test'' [] (BSL # ''today'') []
               [''amsmath''] [] = (Success msg, w') \<longrightarrow>
             nodes w' (resolve rt (target_path srv file_path))
               = Some (File (create_latex_template ''article'' ''Test'' [] (BSL # ''today'') []
                               [''amsmath''] []))
             \<and> msg = ''Successfully created LaTeX file: '' @ path_str (target_path srv file_path)
                       @ [NL, NL] @ ''Content:'' @ [NL]
                       @ create_latex_template ''article'' ''Test'' [] (BSL # ''today'') []
                           [''amsmath''] []"
    by (rule template_deterministic [OF refl refl refl refl refl refl refl, THEN conjunct2])
  have "nodes (snd ?R) (resolve example_runtime (target_path example_server ''new/b.tex''))
          = Some (File (create_latex_template ''article'' ''Test'' [] (BSL # ''today'') []
                          [''amsmath''] []))"
    using d [rule_format, OF e] by (rule conjunct1)
  with s show ?thesis
    unfolding t by simp
qed

section \<open>Properties of the validator\<close>

text \<open>
  C2: the environment check does not report once per mismatched name of either list.  The
  loop runs over the occurrences of \<open>\begin\<close> only: a name that occurs in \<open>\end\<close> commands
  alone is not reported, although its counts differ (0 and 1), and a mismatched name is
  reported once for each of its \<open>\begin\<close> occurrences (twice for the content
  \<open>\begin{a}\begin{a}\end{a}\<close>).
\<close>

theorem environment_check_misreports:
  "environment_issues (BSL # ''end{a}'') = []
   \<and> environment_issues (BSL # ''begin{a}'' @ BSL # ''begin{a}'' @ BSL # ''end{a}'')
       = [''Unmatched environment: a'', ''Unmatched environment: a'']
   \<and> validate_issues rt (BSL # ''end{a}'')
       = [''Missing '' @ BSL # ''documentclass declaration'', ''Missing '' @ BSL # ''begin{document}'',
          ''Missing '' @ BSL # ''end{document}'']
   \<and> validate_issues rt (BSL # ''begin{a}'' @ BSL # ''begin{a}'' @ BSL # ''end{a}'')
       = [''Missing '' @ BSL # ''documentclass declaration'', ''Missing '' @ BSL # ''begin{document}'',
          ''Missing '' @ BSL # ''end{document}'', ''Unmatched environment: a'',
          ''Unmatched environment: a'']"
  by (simp add: environment_issues_def validate_issues_def findall_def finditer_def match_at_def
        match_braced_def sublist_Cons_right Let_def)

section \<open>Properties of the structure analyzer\<close>

lemma finditer_from_positions:
  "sorted_wrt (<) (map fst (finditer_from p i t)) \<and> (\<forall>x\<in>set (finditer_from p i t). i \<le> fst x)"
proof (induction p i t rule: finditer_from.induct)
  case (1 p i)
  then show ?case by simp
next
  case (2 p i c cs)
  show ?case
  proof (cases "match_at p (c # cs)")
    case None
    with 2(1) show ?thesis by (auto simp: less_Suc_eq_le dest: Suc_leD)
  next
    case (Some m)
    obtain g rest where m: "m = (g, rest)" by (cases m)
    from Some m have "length rest < length (c # cs)" by (auto dest: match_at_shorter)
    then have "i < i + (length (c # cs) - length rest)" by simp
    moreover from 2(2) [OF Some m [symmetric]]
    have "sorted_wrt (<) (map fst (finditer_from p (i + (length (c # cs) - length rest)) rest))"
      and "\<forall>x\<in>set (finditer_from p (i + (length (c # cs) - length rest)) rest).
             i + (length (c # cs) - length rest) \<le> fst x"
      by simp_all
    ultimately show ?thesis using Some m by fastforce
  qed
qed

lemma finditer_positions: "sorted_wrt (<) (map fst (finditer p t))"
  using finditer_from_positions [of p 0 t] by (simp add: finditer_def)

lemma level_block_filter:
  "filter (\<lambda>m. fst m = level) (map (Pair l) xs) = (if l = level then map (Pair l) xs else [])"
  by (induction xs) auto

lemma level_block_positions: "map ((\<lambda>m. fst (snd m)) \<circ> Pair l) xs = map fst xs"
  by (induction xs) auto

lemma level_block_ranks:
  "map ((\<lambda>m. level_rank (fst m)) \<circ> Pair l) xs = replicate (length xs) (level_rank l)"
  by (induction xs) auto

lemma level_rank_values:
  "level_rank ''Part'' = 0" "level_rank ''Chapter'' = 1" "level_rank ''Section'' = 2"
  "level_rank ''Subsection'' = 3" "level_rank ''Subsubsection'' = 4"
  "level_rank ''Paragraph'' = 5" "level_rank ''Subparagraph'' = 6"
  by (simp_all add: level_rank_def section_patterns_def)

lemma section_ranks_sorted: "sorted (map (\<lambda>m. level_rank (fst m)) (section_matches content))"
  by (auto simp: section_matches_def section_patterns_def level_block_ranks sorted_append
        level_rank_values)

lemma section_level_in_document_order:
  "sorted_wrt (<) (map (\<lambda>m. fst (snd m)) (filter (\<lambda>m. fst m = level) (section_matches content)))"
  by (auto simp: section_matches_def section_patterns_def level_block_filter
        level_block_positions finditer_positions)

text \<open>
  C7: the outline is in the order of the pattern list, not of the document.  The ranks of
  the levels of the entries never decrease, where Part, Chapter, Section, Subsection,
  Subsubsection, Paragraph and Subparagraph have the ranks 0 to 6; the entries of any one
  level have strictly increasing offsets in the content; the lines of these entries are the
  part of the report after the heading of the outline; and for a \<open>\section{A}\<close> followed by a
  \<open>\chapter{B}\<close> the outline is Chapter B, then Section A.
\<close>

theorem outline_in_pattern_priority_order:
  "sorted (map (\<lambda>m. level_rank (fst m)) (section_matches content))
   \<and> map level_rank [''Part'', ''Chapter'', ''Section'', ''Subsection'', ''Subsubsection'',
                       ''Paragraph'', ''Subparagraph''] = [0, 1, 2, 3, 4, 5, 6]
   \<and> sorted_wrt (<)
        (map (\<lambda>m. fst (snd m)) (filter (\<lambda>m. fst m = level) (section_matches content)))
   \<and> (\<exists>before after.
         latex_structure rt content
           = before @ [NL # ''Document structure:''] @ map section_line (section_matches content)
               @ after)
   \<and> section_matches (BSL # ''section{A}'' @ BSL # ''chapter{B}'')
       = [(''Chapter'', 11, ''B''), (''Section'', 0, ''A'')]
   \<and> map section_line (section_matches (BSL # ''section{A}'' @ BSL # ''chapter{B}''))
       = [''  Chapter: B'', ''  Section: A'']"
proof -
  have ranks: "map level_rank [''Part'', ''Chapter'', ''Section'', ''Subsection'', ''Subsubsection'',
                       ''Paragraph'', ''Subparagraph''] = [0, 1, 2, 3, 4, 5, 6]"
    by (simp add: level_rank_values)
  have "latex_structure rt content
      = ((case search (Pattern (BSL # ''documentclass'') True) content of
            Some g \<Rightarrow> [''Document class: '' @ g] | None \<Rightarrow> [])
         @ (case search (Pattern (BSL # ''title'') False) content of
            Some g \<Rightarrow> [''Title: '' @ g] | None \<Rightarrow> [])
         @ (case search (Pattern (BSL # ''author'') False) content of
            Some g \<Rightarrow> [''Author: '' @ g] | None \<Rightarrow> []))
        @ [NL # ''Document structure:''] @ map section_line (section_matches content)
        @ (if findall (Pattern (BSL # ''usepackage'') True) content \<noteq> []
           then [NL # ''Packages used: ''
                   @ join '', '' (set_order rt (findall (Pattern (BSL # ''usepackage'') True) content))]
           else [])"
    by (simp add: latex_structure_def Let_def split: option.splits)
  then have ex: "\<exists>before after.
         latex_structure rt content
           = before @ [NL # ''Document structure:''] @ map section_line (section_matches content)
               @ after"
    by blast
  have example: "section_matches (BSL # ''section{A}'' @ BSL # ''chapter{B}'')
       = [(''Chapter'', 11, ''B''), (''Section'', 0, ''A'')]"
    by (simp add: section_matches_def section_patterns_def finditer_def match_at_def
          match_braced_def Let_def)
  show ?thesis
    using section_ranks_sorted [of content] section_level_in_document_order [of level content]
      ranks ex example
    by (simp add: section_line_def)
qed

section \<open>Properties of the text editor\<close>


lemma edit_content_empty_search:
  "edit_content content operation new_text (Some []) line_number
     = edit_content content operation new_text None line_number"
  by (simp add: edit_content_def truthy_def Let_def cong: if_cong)

text \<open>
  C10: an empty search text is treated as an absent one.  For every operation the edit with
  the empty search text returns what the edit without search text returns, on the content
  and on the file; so replace fails with the missing-field error, and insert_before and
  insert_after take the line number path: the insertion at a line number from 1 to the number of
  lines, the error otherwise.  No replacement takes place.
\<close>

theorem empty_search_text_is_absent:
  "edit_content content operation new_text (Some []) line_number
     = edit_content content operation new_text None line_number
   \<and> edit_content content ''replace'' new_text (Some []) line_number = Inl SearchTextRequired
   \<and> edit_content content ''insert_before'' new_text (Some []) line_number
       = (case valid_line line_number (splitlines content) of
            None \<Rightarrow> Inl SearchOrLineRequired
          | Some n \<Rightarrow> Inr (join [NL] (list_insert (n - 1) new_text (splitlines content))))
   \<and> edit_content content ''insert_after'' new_text (Some []) line_number
       = (case valid_line line_number (splitlines content) of
            None \<Rightarrow> Inl SearchOrLineRequired
          | Some n \<Rightarrow> Inr (join [NL] (list_insert n new_text (splitlines content))))
   \<and> edit_latex_file rt srv w file_path operation new_text (Some []) line_number
       = edit_latex_file rt srv w file_path operation new_text None line_number"
proof -
  have "edit_latex_file rt srv w file_path operation new_text (Some []) line_number
       = edit_latex_file rt srv w file_path operation new_text None line_number"
    unfolding edit_latex_file_def edit_content_empty_search ..
  then show ?thesis
    by (simp add: edit_content_def truthy_def Let_def cong: if_cong)
qed

lemma edit_failure_leaves_files:
  assumes "edit_latex_file rt srv w file_path operation new_text search_text line_number = (r, w')"
    and "failed r"
  shows "nodes w' = nodes w"
  using assms
  by (auto simp: edit_latex_file_def path_exists_def read_text_def write_text_def logged_def
        caught_def Let_def
      split: sum.splits option.splits node.splits prod.splits bool.splits if_splits)

lemma edit_rejection_writes_nothing:
  assumes "edit_latex_file rt srv w file_path operation new_text search_text line_number
             = (Failure kind msg, w')"
    and "kind \<noteq> InternalException"
  shows "filter is_write (io_log w') = filter is_write (io_log w)"
  using assms
  by (auto simp: edit_latex_file_def path_exists_def read_text_def write_text_def logged_def
        caught_def is_write_def Let_def
      split: sum.splits option.splits node.splits prod.splits bool.splits if_splits exn.splits)

lemma edit_rejected_request_fails:
  assumes "\<And>content. \<exists>err. edit_content content operation new_text search_text line_number = Inl err"
  shows "failed (fst (edit_latex_file rt srv w file_path operation new_text search_text line_number))"
proof -
  have "edit_content content operation new_text search_text line_number \<noteq> Inr edited" for content edited
    using assms [of content] by auto
  then show ?thesis
    by (auto simp: edit_latex_file_def caught_def
        split: sum.splits option.splits prod.splits bool.splits)
qed

text \<open>
  C6: for a non-empty search text, replace rewrites every occurrence.  The content is its
  pieces joined by the search text, the result is the same pieces joined by the new text,
  there is one piece more than the search text occurs (counted as \<open>str.count\<close> counts, from
  the left and without overlap), and no piece contains the search text.  When it does not
  occur the content is returned as it is.  Without search text the edit fails with the
  missing-field error, and the files are as they were.
\<close>

theorem replace_replaces_every_occurrence:
  assumes "search_text \<noteq> []"
  shows "edit_content content ''replace'' new_text (Some search_text) line_number
           = Inr (join new_text (split_on content search_text))
       \<and> join search_text (split_on content search_text) = content
       \<and> length (split_on content search_text) = Suc (py_count content search_text)
       \<and> list_all (\<lambda>p. \<not> sublist search_text p) (split_on content search_text)
       \<and> (py_count content search_text = 0 \<longrightarrow>
            edit_content content ''replace'' new_text (Some search_text) line_number = Inr content)
       \<and> edit_content content ''replace'' new_text None line_number = Inl SearchTextRequired
       \<and> edit_failure SearchTextRequired = MissingField
       \<and> failed (fst (edit_latex_file rt srv w file_path ''replace'' new_text None line_number))
       \<and> nodes (snd (edit_latex_file rt srv w file_path ''replace'' new_text None line_number))
           = nodes w"
proof -
  have r: "edit_content content ''replace'' new_text (Some search_text) line_number
            = Inr (py_replace content search_text new_text)"
    using assms by (simp add: edit_content_def truthy_def)
  have n: "edit_content c ''replace'' new_text None line_number = Inl SearchTextRequired" for c
    by (simp add: edit_content_def truthy_def)
  have f: "failed (fst (edit_latex_file rt srv w file_path ''replace'' new_text None line_number))"
    by (rule edit_rejected_request_fails) (simp add: n)
  have u: "nodes (snd (edit_latex_file rt srv w file_path ''replace'' new_text None line_number))
            = nodes w"
    using edit_failure_leaves_files [OF surjective_pairing f] by simp
  have p: "list_all (\<lambda>p. \<not> sublist search_text p) (split_on content search_text)"
    using split_on_pieces_free [OF assms] by (auto simp: list_all_iff)
  show ?thesis
    using assms r n f u p
    by (simp add: py_replace_split_on join_split_on length_split_on py_replace_absent
          edit_failure_def flip: py_replace_split_on)
qed

text \<open>
  C6 at the content \<open>abcbcd\<close>, search text \<open>bc\<close> and new text \<open>X\<close>: two occurrences, three
  pieces, and the result \<open>aXXd\<close>.
\<close>

theorem replace_replaces_every_occurrence_witness:
  "''bc'' \<noteq> []
   \<and> split_on ''abcbcd'' ''bc'' = [''a'', [], ''d'']
   \<and> py_count ''abcbcd'' ''bc'' = 2
   \<and> edit_content ''abcbcd'' ''replace'' ''X'' (Some ''bc'') None = Inr ''aXXd''
   \<and> failed (fst (edit_latex_file example_runtime example_server example_world ''a.tex''
                    ''replace'' ''X'' None None))"
  using replace_replaces_every_occurrence
          [of "''bc''" "''abcbcd''" "''X''" None example_runtime example_server example_world "''a.tex''"]
  by simp

section \<open>Properties of the handlers\<close>

text \<open>
  C3: when the canonical form of the path lies outside the parent of the base directory,
  each of the six handlers returns the path escape error, with its own label before the text
  of the error, and returns the state it was given: no node is changed and no call on the
  file system is logged.
\<close>

theorem path_escape_rejected:
  assumes "\<not> prefix (allowed_base rt srv) (resolve rt (target_path srv file_path))"
  shows "create_latex_file rt srv w file_path document_type title author date content packages geometry
           = (Failure PathEscape
                (''Error creating LaTeX file: '' @ str_exn rt (PathOutside file_path (allowed_base rt srv))),
              w)
       \<and> edit_latex_file rt srv w file_path operation new_text search_text line_number
           = (Failure PathEscape
                (''Error editing LaTeX file: '' @ str_exn rt (PathOutside file_path (allowed_base rt srv))),
              w)
       \<and> read_latex_file rt srv w file_path
           = (Failure PathEscape
                (''Error reading LaTeX file: '' @ str_exn rt (PathOutside file_path (allowed_base rt srv))),
              w)
       \<and> list_latex_files rt srv w file_path recursive
           = (Failure PathEscape
                (''Error listing LaTeX files: '' @ str_exn rt (PathOutside file_path (allowed_base rt srv))),
              w)
       \<and> validate_latex rt srv w file_path
           = (Failure PathEscape
                (''Error validating LaTeX file: '' @ str_exn rt (PathOutside file_path (allowed_base rt srv))),
              w)
       \<and> get_latex_structure rt srv w file_path
           = (Failure PathEscape
                (''Error analyzing LaTeX structure: ''
                   @ str_exn rt (PathOutside file_path (allowed_base rt srv))),
              w)
       \<and> str_exn rt (PathOutside file_path (allowed_base rt srv))
           = ''Path '' @ file_path @ '' is outside the allowed base path (''
               @ path_str \<lparr>root = ''/'', parts = allowed_base rt srv\<rparr> @ '')''"
proof -
  have "get_file_path rt srv file_path = Inl (PathOutside file_path (allowed_base rt srv))"
    using assms by (simp add: get_file_path_def Let_def)
  then show ?thesis
    by (simp add: create_latex_file_def edit_latex_file_def read_latex_file_def
          list_latex_files_def validate_latex_def get_latex_structure_def caught_def str_exn_def)
qed

text \<open>
  C3 on the example platform, for the path \<open>../../secret.tex\<close>, which resolves to
  \<open>/srv/secret.tex\<close>, outside \<open>/srv/tex\<close>.
\<close>

theorem path_escape_rejected_witness:
  "\<not> prefix (allowed_base example_runtime example_server)
       (resolve example_runtime (target_path example_server ''../../secret.tex''))
   \<and> read_latex_file example_runtime example_server example_world ''../../secret.tex''
       = (Failure PathEscape
            ''Error reading LaTeX file: Path ../../secret.tex is outside the allowed base path (/srv/tex)'',
          example_world)
   \<and> edit_latex_file example_runtime example_server example_world ''../../secret.tex''
         ''append'' ''x'' None None
       = (Failure PathEscape
            ''Error editing LaTeX file: Path ../../secret.tex is outside the allowed base path (/srv/tex)'',
          example_world)"
proof -
  have h: "\<not> prefix (allowed_base example_runtime example_server)
       (resolve example_runtime (target_path example_server ''../../secret.tex''))"
    by (simp add: allowed_base_def example_runtime_def path_defs file_defs example_server_def target_path_def
          path_of_def joinpath_def parent_def Let_def)
  have t: "str_exn example_runtime (PathOutside ''../../secret.tex'' (allowed_base example_runtime example_server))
        = ''Path ../../secret.tex is outside the allowed base path (/srv/tex)''"
    by (simp add: str_exn_def allowed_base_def example_runtime_def path_defs file_defs example_server_def parent_def
          path_str_def)
  show ?thesis
    using h t path_escape_rejected [OF h, of example_world "''article''" "[]" "[]" "[]" "[]" "[]" "[]"
        "''append''" "''x''" None None False]
    by simp
qed

text \<open>
  C9: when \<open>edit_latex_file\<close> returns because the file is missing, a required field is
  missing or the operation is unknown, every node of the file system is as it was, and the
  log has no new write.
\<close>

theorem edit_atomic_on_error:
  assumes "edit_latex_file rt srv w file_path operation new_text search_text line_number
             = (Failure kind msg, w')"
    and "kind = FileNotFound \<or> kind = MissingField \<or> kind = UnknownOperation"
  shows "nodes w' = nodes w \<and> filter is_write (io_log w') = filter is_write (io_log w)"
  using edit_failure_leaves_files [OF assms(1)] edit_rejection_writes_nothing [OF assms(1)] assms(2)
  by auto

text \<open>
  C9 on the example platform: the unknown operation \<open>delete\<close> on \<open>a.tex\<close> is refused after
  the file was looked up and read, and nothing was written.
\<close>

theorem edit_atomic_on_error_witness:
  "edit_latex_file example_runtime example_server example_world ''a.tex'' ''delete'' ''x'' None None
     = (Failure UnknownOperation ''Unknown operation: delete'',
        example_world\<lparr>io_log := [Exists [''srv'', ''tex'', ''docs'', ''a.tex''],
                                  ReadText [''srv'', ''tex'', ''docs'', ''a.tex'']]\<rparr>)
   \<and> nodes (example_world\<lparr>io_log := [Exists [''srv'', ''tex'', ''docs'', ''a.tex''],
                                  ReadText [''srv'', ''tex'', ''docs'', ''a.tex'']]\<rparr>)
       = nodes example_world
   \<and> filter is_write [Exists [''srv'', ''tex'', ''docs'', ''a.tex''],
                        ReadText [''srv'', ''tex'', ''docs'', ''a.tex'']] = []"
proof -
  have r: "edit_latex_file example_runtime example_server example_world ''a.tex'' ''delete'' ''x'' None None
     = (Failure UnknownOperation ''Unknown operation: delete'',
        example_world\<lparr>io_log := [Exists [''srv'', ''tex'', ''docs'', ''a.tex''],
                                  ReadText [''srv'', ''tex'', ''docs'', ''a.tex'']]\<rparr>)"
    by (simp add: edit_latex_file_def example_runtime_def path_defs file_defs example_server_def example_world_def
          get_file_path_def target_path_def allowed_base_def path_of_def joinpath_def parent_def
          path_exists_def read_text_def logged_def edit_content_def edit_failure_def
          edit_error_text_def Let_def)
  from edit_atomic_on_error [OF r] r show ?thesis
    by (simp add: example_world_def)
qed

section \<open>Properties of the dispatcher\<close>












end
